theory Spec2Isabelle
  imports Main "HOL-Library.Sublist"
begin

section \<open>The fund-detail store of \<^verbatim>\<open>parsers/fiidb.go\<close>\<close>

text \<open>
  The Go file wraps a \<^verbatim>\<open>*sql.DB\<close> handle and offers three methods:
  \<^verbatim>\<open>StoreFIIDetails\<close> (the spec's StoreFundDetails), \<^verbatim>\<open>CNPJ\<close> (ResolveCNPJ) and
  \<^verbatim>\<open>SelectFIIDetails\<close> (GetFundDetails). Go strings are byte strings and \<^verbatim>\<open>len\<close>
  counts bytes; \<^typ>\<open>string\<close> is a list of 8-bit characters and \<^const>\<open>length\<close>
  counts them, so the two agree.
\<close>

subsection \<open>Errors\<close>

text \<open>
  \<^verbatim>\<open>ErrDBUnset\<close> and \<^verbatim>\<open>ErrNotFound\<close> are the two package variables (the second is
  declared and never returned by this file); \<open>ErrNoRows\<close> is \<^verbatim>\<open>sql.ErrNoRows\<close>;
  \<open>Errorf\<close> carries the text built by \<^verbatim>\<open>fmt.Errorf\<close>; \<open>Wrap\<close> is
  \<^verbatim>\<open>errors.Wrap(err, msg)\<close>; \<open>JsonError\<close> is what \<^verbatim>\<open>json.Unmarshal\<close> reports and
  \<open>DriverError\<close> what the storage engine reports.
\<close>

datatype error =
    ErrDBUnset
  | ErrNotFound
  | ErrNoRows
  | Errorf string
  | Wrap error string
  | JsonError string
  | DriverError string

subsection \<open>The payload record\<close>

text \<open>
  The two nested structs of \<^verbatim>\<open>FIIDetails\<close> are anonymous in the source; their
  records are named after the fields that hold them. The two \<^verbatim>\<open>interface{}\<close> fields hold whatever JSON value the payload has; \<open>JNull\<close>
  is Go's \<^verbatim>\<open>nil\<close>. The slice \<^verbatim>\<open>Codes\<close> is \<open>None\<close> when \<^verbatim>\<open>nil\<close>.
\<close>

datatype json_value =
    JNull
  | JBool bool
  | JNumber string
  | JString string
  | JArray "json_value list"
  | JObject "(string \<times> json_value) list"

record DetailFund_struct =
  Acronym :: string
  TradingName :: string
  TradingCode :: string
  TradingCodeOthers :: string
  CNPJ :: string
  Classification :: string
  WebSite :: string
  FundAddress :: string
  FundPhoneNumberDDD :: string
  FundPhoneNumber :: string
  FundPhoneNumberFax :: string
  PositionManager :: string
  ManagerName :: string
  CompanyAddress :: string
  CompanyPhoneNumberDDD :: string
  CompanyPhoneNumber :: string
  CompanyPhoneNumberFax :: string
  CompanyEmail :: string
  CompanyName :: string
  QuotaCount :: string
  QuotaDateApproved :: string
  Codes :: "string list option"
  CodesOther :: json_value
  Segment :: json_value

record ShareHolder_struct =
  ShareHolderName :: string
  ShareHolderAddress :: string
  ShareHolderPhoneNumberDDD :: string
  ShareHolderPhoneNumber :: string
  ShareHolderFaxNumber :: string
  ShareHolderEmail :: string

record FIIDetails =
  DetailFund :: DetailFund_struct
  ShareHolder :: ShareHolder_struct

text \<open>The zero value of \<^verbatim>\<open>var fiiDetail FIIDetails\<close>.\<close>

definition zero_DetailFund :: DetailFund_struct where
  "zero_DetailFund =
     \<lparr> Acronym = [], TradingName = [], TradingCode = [], TradingCodeOthers = [],
       CNPJ = [], Classification = [], WebSite = [], FundAddress = [],
       FundPhoneNumberDDD = [], FundPhoneNumber = [], FundPhoneNumberFax = [],
       PositionManager = [], ManagerName = [], CompanyAddress = [],
       CompanyPhoneNumberDDD = [], CompanyPhoneNumber = [], CompanyPhoneNumberFax = [],
       CompanyEmail = [], CompanyName = [], QuotaCount = [], QuotaDateApproved = [],
       Codes = None, CodesOther = JNull, Segment = JNull \<rparr>"

definition zero_ShareHolder :: ShareHolder_struct where
  "zero_ShareHolder =
     \<lparr> ShareHolderName = [], ShareHolderAddress = [], ShareHolderPhoneNumberDDD = [],
       ShareHolderPhoneNumber = [], ShareHolderFaxNumber = [], ShareHolderEmail = [] \<rparr>"

definition zero_FIIDetails :: FIIDetails where
  "zero_FIIDetails = \<lparr> DetailFund = zero_DetailFund, ShareHolder = zero_ShareHolder \<rparr>"

subsection \<open>\<^verbatim>\<open>strings.TrimSpace\<close>\<close>

text \<open>
  \<^verbatim>\<open>strings.TrimSpace\<close> removes every leading and trailing rune \<open>r\<close> with
  \<^verbatim>\<open>unicode.IsSpace(r)\<close>. On a byte string that is: every leading and trailing
  occurrence of the UTF-8 encoding of such a rune (an encoding is the only byte
  sequence that decodes to its rune, and every other byte sequence decodes to another
  rune or to \<^verbatim>\<open>RuneError\<close>, which is no space). The runes are the six ASCII ones,
  U+0085, U+00A0, U+1680, U+2000 to U+200A, U+2028, U+2029, U+202F, U+205F and U+3000.
\<close>

definition unicode_spaces :: "string list" where
  "unicode_spaces =
     [[CHR 0x09], [CHR 0x0A], [CHR 0x0B], [CHR 0x0C], [CHR 0x0D], [CHR 0x20],
      [CHR 0xC2, CHR 0x85], [CHR 0xC2, CHR 0xA0],
      [CHR 0xE1, CHR 0x9A, CHR 0x80],
      [CHR 0xE2, CHR 0x80, CHR 0x80], [CHR 0xE2, CHR 0x80, CHR 0x81],
      [CHR 0xE2, CHR 0x80, CHR 0x82], [CHR 0xE2, CHR 0x80, CHR 0x83],
      [CHR 0xE2, CHR 0x80, CHR 0x84], [CHR 0xE2, CHR 0x80, CHR 0x85],
      [CHR 0xE2, CHR 0x80, CHR 0x86], [CHR 0xE2, CHR 0x80, CHR 0x87],
      [CHR 0xE2, CHR 0x80, CHR 0x88], [CHR 0xE2, CHR 0x80, CHR 0x89],
      [CHR 0xE2, CHR 0x80, CHR 0x8A],
      [CHR 0xE2, CHR 0x80, CHR 0xA8], [CHR 0xE2, CHR 0x80, CHR 0xA9],
      [CHR 0xE2, CHR 0x80, CHR 0xAF], [CHR 0xE2, CHR 0x81, CHR 0x9F],
      [CHR 0xE3, CHR 0x80, CHR 0x80]]"

definition leading_space :: "string \<Rightarrow> string option" where
  "leading_space s = find (\<lambda>w. prefix w s) unicode_spaces"

definition trailing_space :: "string \<Rightarrow> string option" where
  "trailing_space s = find (\<lambda>w. suffix w s) unicode_spaces"

lemma unicode_spaces_nonempty: "w \<in> set unicode_spaces \<Longrightarrow> w \<noteq> []"
  by (auto simp: unicode_spaces_def)

lemma find_SomeD: "find P xs = Some x \<Longrightarrow> P x \<and> x \<in> set xs"
  by (induction xs) (auto split: if_splits)

lemma leading_space_Some:
  "leading_space s = Some w \<Longrightarrow> w \<noteq> [] \<and> prefix w s"
proof -
  assume "leading_space s = Some w"
  then have "prefix w s \<and> w \<in> set unicode_spaces"
    unfolding leading_space_def by (rule find_SomeD)
  then show ?thesis
    by (simp add: unicode_spaces_nonempty)
qed

lemma trailing_space_Some:
  "trailing_space s = Some w \<Longrightarrow> w \<noteq> [] \<and> suffix w s"
proof -
  assume "trailing_space s = Some w"
  then have "suffix w s \<and> w \<in> set unicode_spaces"
    unfolding trailing_space_def by (rule find_SomeD)
  then show ?thesis
    by (simp add: unicode_spaces_nonempty)
qed

function trimLeft :: "string \<Rightarrow> string" where
  "trimLeft s =
     (case leading_space s of
        None \<Rightarrow> s
      | Some w \<Rightarrow> trimLeft (drop (length w) s))"
  by pat_completeness auto
termination
proof (relation "measure length")
  show "wf (measure length)" by simp
next
  fix s w
  assume "leading_space s = Some w"
  then have "w \<noteq> [] \<and> prefix w s"
    by (rule leading_space_Some)
  then have "0 < length w" and "prefix w s"
    by simp_all
  then have "length w \<le> length s"
    by (simp add: prefix_length_le)
  with \<open>0 < length w\<close> have "length s - length w < length s"
    by arith
  then show "(drop (length w) s, s) \<in> measure length"
    by simp
qed

function trimRight :: "string \<Rightarrow> string" where
  "trimRight s =
     (case trailing_space s of
        None \<Rightarrow> s
      | Some w \<Rightarrow> trimRight (take (length s - length w) s))"
  by pat_completeness auto
termination
proof (relation "measure length")
  show "wf (measure length)" by simp
next
  fix s w
  assume "trailing_space s = Some w"
  then have "w \<noteq> [] \<and> suffix w s"
    by (rule trailing_space_Some)
  then have "0 < length w" and "suffix w s"
    by simp_all
  then have "length w \<le> length s"
    by (simp add: suffix_length_le)
  with \<open>0 < length w\<close> have "length s - length w < length s"
    by arith
  then show "(take (length s - length w) s, s) \<in> measure length"
    by simp
qed

declare trimLeft.simps [simp del] trimRight.simps [simp del]

definition TrimSpace :: "string \<Rightarrow> string" where
  "TrimSpace s = trimRight (trimLeft s)"

subsection \<open>The storage handle\<close>

text \<open>
  The handle is a \<^verbatim>\<open>*sql.DB\<close>, a collaborator outside this file. Its model is a
  database with named tables of \<open>(cnpj, acronym, trading_code)\<close> rows, kept in
  insertion order (the order in which a scan of the table meets them), a flag for a
  database that was opened read-only, and the log of the statements the code has
  issued against it, so that "no query is issued" is a property of the log.
\<close>

record row =
  cnpj :: string
  acronym :: string
  trading_code :: string

datatype column = Col_cnpj | Col_acronym | Col_trading_code

text \<open>\<open>SELECT cols FROM fii_details WHERE col=?\<close>\<close>

datatype query = SELECT_FROM_fii_details_WHERE "column list" column

datatype stmt =
    CheckTable string
  | CreateTable string
  | InsertOrIgnore string string string
  | QueryRow query string

record database =
  tables :: "string \<rightharpoonup> row list"
  readonly :: bool
  log :: "stmt list"

record FIIStore =
  db :: "database option"

text \<open>\<^verbatim>\<open>NewFIIStore\<close> accepts a nil handle.\<close>

definition NewFIIStore :: "database option \<Rightarrow> FIIStore" where
  "NewFIIStore d = \<lparr> db = d \<rparr>"

definition issue :: "stmt \<Rightarrow> database \<Rightarrow> database" where
  "issue st h = h\<lparr> log := log h @ [st] \<rparr>"

text \<open>
  Modelled from the spec: \<^verbatim>\<open>hasTable\<close> is a function of the package that lives in
  another file. The spec describes it as "a way to check whether a named table exists".
\<close>

definition hasTable :: "database \<Rightarrow> string \<Rightarrow> bool \<times> database" where
  "hasTable h name = (tables h name \<noteq> None, issue (CheckTable name) h)"

text \<open>
  Modelled from the spec: \<^verbatim>\<open>createTable\<close> is a function of the package that lives in
  another file. The spec describes it as "a way to create a table from a name/schema",
  creating \<open>fii_details\<close> "with the minimal schema (cnpj, acronym, trading_code)" where
  "schema-creation failure propagates as-is". A new table is empty; creation is a write,
  which a read-only database refuses; a table that is there is left as it is.
\<close>

definition createTable :: "database \<Rightarrow> string \<Rightarrow> error option \<times> database" where
  "createTable h name =
     (let h' = issue (CreateTable name) h in
      if readonly h then (Some (DriverError ''attempt to write a readonly database''), h')
      else (case tables h name of
              Some rows \<Rightarrow> (None, h')
            | None \<Rightarrow> (None, h'\<lparr> tables := (tables h)(name \<mapsto> []) \<rparr>)))"

text \<open>
  \<^verbatim>\<open>db.Exec("INSERT OR IGNORE INTO fii_details (cnpj, acronym, trading_code) VALUES (?,?,?)", c, a, t)\<close>:
  the row is appended unless a row with this \<open>cnpj\<close> is there already, in which case
  the statement does nothing and reports no error. Modelled from the spec: the schema of
  \<open>fii_details\<close> is declared in another file of the package; the spec has CNPJ as "the
  natural/unique identity" of a row, with an "insert-or-ignore semantic keyed on CNPJ
  uniqueness", so \<open>cnpj\<close> is the column whose uniqueness the statement runs into.
\<close>

definition Exec_INSERT_OR_IGNORE ::
  "database \<Rightarrow> string \<Rightarrow> string \<Rightarrow> string \<Rightarrow> error option \<times> database" where
  "Exec_INSERT_OR_IGNORE h c a t =
     (let h' = issue (InsertOrIgnore c a t) h in
      case tables h ''fii_details'' of
        None \<Rightarrow> (Some (DriverError ''no such table: fii_details''), h')
      | Some rows \<Rightarrow>
          if readonly h then (Some (DriverError ''attempt to write a readonly database''), h')
          else if list_ex (\<lambda>r. cnpj r = c) rows then (None, h')
          else (None, h'\<lparr> tables := (tables h)(''fii_details'' \<mapsto>
                  rows @ [\<lparr> cnpj = c, acronym = a, trading_code = t \<rparr>]) \<rparr>))"

fun col :: "column \<Rightarrow> row \<Rightarrow> string" where
  "col Col_cnpj r = cnpj r"
| "col Col_acronym r = acronym r"
| "col Col_trading_code r = trading_code r"

text \<open>
  \<^verbatim>\<open>db.QueryRow(query, code)\<close>: the selected columns of the first row whose key
  column equals the argument, \<^verbatim>\<open>sql.ErrNoRows\<close> when there is none.
\<close>

fun QueryRow_db :: "database \<Rightarrow> query \<Rightarrow> string \<Rightarrow> (error + string list) \<times> database" where
  "QueryRow_db h (SELECT_FROM_fii_details_WHERE cols k) arg =
     (let h' = issue (QueryRow (SELECT_FROM_fii_details_WHERE cols k) arg) h in
      case tables h ''fii_details'' of
        None \<Rightarrow> (Inl (DriverError ''no such table: fii_details''), h')
      | Some rows \<Rightarrow>
          (case find (\<lambda>r. col k r = arg) rows of
             None \<Rightarrow> (Inl ErrNoRows, h')
           | Some r \<Rightarrow> (Inr (map (\<lambda>c. col c r) cols), h')))"

text \<open>
  \<^verbatim>\<open>row.Scan(&a)\<close> and \<^verbatim>\<open>row.Scan(&a, &b, &c)\<close>: the deferred error of the query,
  or the columns copied into the destinations. A row with another number of columns
  than destinations is an error; the queries of this file select as many columns as
  they scan, so they never meet it.
\<close>

fun Scan1 :: "error + string list \<Rightarrow> error + string" where
  "Scan1 (Inl e) = Inl e"
| "Scan1 (Inr [a]) = Inr a"
| "Scan1 (Inr vs) = Inl (Errorf ''sql: expected destination arguments in Scan'')"

fun Scan3 :: "error + string list \<Rightarrow> error + string \<times> string \<times> string" where
  "Scan3 (Inl e) = Inl e"
| "Scan3 (Inr [a, b, c]) = Inr (a, b, c)"
| "Scan3 (Inr vs) = Inl (Errorf ''sql: expected destination arguments in Scan'')"

subsection \<open>The three methods\<close>

definition trimFIIDetails :: "FIIDetails \<Rightarrow> FIIDetails" where
  "trimFIIDetails f =
     f\<lparr> DetailFund := (DetailFund f)
          \<lparr> CNPJ := TrimSpace (CNPJ (DetailFund f)),
            Acronym := TrimSpace (Acronym (DetailFund f)),
            TradingCode := TrimSpace (TradingCode (DetailFund f)) \<rparr> \<rparr>"

text \<open>
  \<^verbatim>\<open>json.Unmarshal\<close> belongs to Go's standard library. The model takes it as the
  parameter \<open>json_Unmarshal\<close>: a function from the stream to either the decoder's error
  text or the decoded record.
\<close>

type_synonym unmarshal = "string \<Rightarrow> string + FIIDetails"

definition StoreFIIDetails :: "unmarshal \<Rightarrow> FIIStore \<Rightarrow> string \<Rightarrow> error option \<times> FIIStore" where
  "StoreFIIDetails json_Unmarshal fii stream =
     (case db fii of
        None \<Rightarrow> (Some ErrDBUnset, fii)
      | Some h0 \<Rightarrow>
          (let (has, h1) = hasTable h0 ''fii_details'';
               (created, h2) = (if \<not> has then createTable h1 ''fii_details'' else (None, h1))
           in case created of
                Some err \<Rightarrow> (Some err, fii\<lparr> db := Some h2 \<rparr>)
              | None \<Rightarrow>
                  (case json_Unmarshal stream of
                     Inl e \<Rightarrow> (Some (Wrap (JsonError e) ''json unmarshal''), fii\<lparr> db := Some h2 \<rparr>)
                   | Inr decoded \<Rightarrow>
                       (let fiiDetails = trimFIIDetails decoded;
                            x = DetailFund fiiDetails
                        in if CNPJ x = [] then
                             (Some (Errorf (''wrong CNPJ: '' @ CNPJ x)), fii\<lparr> db := Some h2 \<rparr>)
                           else
                             (let (err, h3) =
                                    Exec_INSERT_OR_IGNORE h2 (CNPJ x) (Acronym x) (TradingCode x)
                              in (err, fii\<lparr> db := Some h3 \<rparr>))))))"

definition invalid_code :: "string \<Rightarrow> error" where
  "invalid_code code = Errorf (''invalid code '' @ [CHR 0x27] @ code @ [CHR 0x27])"

definition CNPJ_of_code :: "FIIStore \<Rightarrow> string \<Rightarrow> (string \<times> error option) \<times> FIIStore" where
  "CNPJ_of_code fii code =
     (case db fii of
        None \<Rightarrow> (([], Some ErrDBUnset), fii)
      | Some h \<Rightarrow>
          (case (if length code = 4 then Some (SELECT_FROM_fii_details_WHERE [Col_cnpj] Col_acronym)
                 else if length code = 6 then Some (SELECT_FROM_fii_details_WHERE [Col_cnpj] Col_trading_code)
                 else None) of
             None \<Rightarrow> (([], Some (invalid_code code)), fii)
           | Some query \<Rightarrow>
               (let (r, h') = QueryRow_db h query code in
                case Scan1 r of
                  Inl err \<Rightarrow>
                    if err \<noteq> ErrNoRows then (([], Some err), fii\<lparr> db := Some h' \<rparr>)
                    else (([], None), fii\<lparr> db := Some h' \<rparr>)
                | Inr c \<Rightarrow> ((c, None), fii\<lparr> db := Some h' \<rparr>))))"

definition SelectFIIDetails ::
  "FIIStore \<Rightarrow> string \<Rightarrow> (FIIDetails option \<times> error option) \<times> FIIStore" where
  "SelectFIIDetails fii code =
     (case db fii of
        None \<Rightarrow> ((None, Some ErrDBUnset), fii)
      | Some h \<Rightarrow>
          (case (if length code = 4 then
                   Some (SELECT_FROM_fii_details_WHERE [Col_cnpj, Col_acronym, Col_trading_code] Col_acronym)
                 else if length code = 6 then
                   Some (SELECT_FROM_fii_details_WHERE [Col_cnpj, Col_acronym, Col_trading_code] Col_trading_code)
                 else None) of
             None \<Rightarrow> ((None, Some (invalid_code code)), fii)
           | Some query \<Rightarrow>
               (let (r, h') = QueryRow_db h query code in
                case Scan3 r of
                  Inl err \<Rightarrow> ((None, Some err), fii\<lparr> db := Some h' \<rparr>)
                | Inr (c, a, t) \<Rightarrow>
                    ((Some (zero_FIIDetails\<lparr> DetailFund := (DetailFund zero_FIIDetails)
                              \<lparr> CNPJ := c, Acronym := a, TradingCode := t \<rparr> \<rparr>), None),
                     fii\<lparr> db := Some h' \<rparr>))))"

subsection \<open>Notions used to state the properties\<close>

text \<open>The rows of \<open>fii_details\<close> behind a store, and the statements issued so far.\<close>

definition fii_rows :: "FIIStore \<Rightarrow> row list option" where
  "fii_rows fii = (case db fii of None \<Rightarrow> None | Some h \<Rightarrow> tables h ''fii_details'')"

definition fii_log :: "FIIStore \<Rightarrow> stmt list" where
  "fii_log fii = (case db fii of None \<Rightarrow> [] | Some h \<Rightarrow> log h)"

definition rows_or_empty :: "database \<Rightarrow> row list" where
  "rows_or_empty h = (case tables h ''fii_details'' of None \<Rightarrow> [] | Some rows \<Rightarrow> rows)"

text \<open>The database once the check-then-create step of \<^verbatim>\<open>StoreFIIDetails\<close> has gone through.\<close>

definition ensured :: "database \<Rightarrow> database" where
  "ensured h =
     (case tables h ''fii_details'' of
        Some rows \<Rightarrow> issue (CheckTable ''fii_details'') h
      | None \<Rightarrow> (issue (CreateTable ''fii_details'') (issue (CheckTable ''fii_details'') h))
                  \<lparr> tables := (tables h)(''fii_details'' \<mapsto> []) \<rparr>)"

text \<open>What \<open>INSERT OR IGNORE\<close> makes of the rows of the table.\<close>

definition insert_or_ignore :: "row list \<Rightarrow> row \<Rightarrow> row list" where
  "insert_or_ignore rows r = (if list_ex (\<lambda>r'. cnpj r' = cnpj r) rows then rows else rows @ [r])"

text \<open>The column a lookup code is compared with: the acronym for four bytes, the trading code for six.\<close>

definition key_column :: "string \<Rightarrow> column" where
  "key_column code = (if length code = 4 then Col_acronym else Col_trading_code)"

text \<open>The uniqueness of \<open>cnpj\<close> that the table's schema enforces.\<close>

definition cnpj_unique :: "FIIStore \<Rightarrow> bool" where
  "cnpj_unique fii = (case fii_rows fii of None \<Rightarrow> True | Some rows \<Rightarrow> distinct (map cnpj rows))"

text \<open>No row shares its CNPJ, its acronym or its trading code with \<open>r0\<close>, unless it is \<open>r0\<close>.\<close>

definition no_conflict :: "row list \<Rightarrow> row \<Rightarrow> bool" where
  "no_conflict rows r0 =
     list_all (\<lambda>r. (cnpj r = cnpj r0 \<or> acronym r = acronym r0 \<or> trading_code r = trading_code r0)
                    \<longrightarrow> r = r0) rows"

subsection \<open>Sample data\<close>

text \<open>
  A database without any table, a few payloads, and the value of \<^verbatim>\<open>json.Unmarshal\<close> on
  them (fields that a payload leaves out decode to their zero values; the last payload
  is cut off in the middle).
\<close>

definition fresh :: database where
  "fresh = \<lparr> tables = Map.empty, readonly = False, log = [] \<rparr>"

definition payload_ABCD :: string where
  \<open>payload_ABCD = ''{"detailFund":{"acronym":"ABCD","tradingCode":"ABCD11","cnpj":"12.345.678/0001-90"}}''\<close>

definition payload_padded :: string where
  \<open>payload_padded = ''{"detailFund":{"acronym":" ABCD ","tradingCode":" ABCD11 ","cnpj":" 12.345.678/0001-90 "}}''\<close>

definition payload_WXYZ :: string where
  \<open>payload_WXYZ = ''{"detailFund":{"acronym":"WXYZ","tradingCode":"WXYZ11","cnpj":"12.345.678/0001-90"}}''\<close>

definition payload_blank :: string where
  \<open>payload_blank = ''{"detailFund":{"acronym":"ABCD","tradingCode":"ABCD11","cnpj":"   "}}''\<close>

definition payload_malformed :: string where
  \<open>payload_malformed = ''{"detailFund":''\<close>

definition fund :: "string \<Rightarrow> string \<Rightarrow> string \<Rightarrow> FIIDetails" where
  "fund c a t = zero_FIIDetails\<lparr> DetailFund := zero_DetailFund\<lparr> CNPJ := c, Acronym := a, TradingCode := t \<rparr> \<rparr>"

definition sample_Unmarshal :: unmarshal where
  "sample_Unmarshal s =
     (if s = payload_ABCD then Inr (fund ''12.345.678/0001-90'' ''ABCD'' ''ABCD11'')
      else if s = payload_padded then Inr (fund '' 12.345.678/0001-90 '' '' ABCD '' '' ABCD11 '')
      else if s = payload_WXYZ then Inr (fund ''12.345.678/0001-90'' ''WXYZ'' ''WXYZ11'')
      else if s = payload_blank then Inr (fund ''   '' ''ABCD'' ''ABCD11'')
      else Inl ''unexpected end of JSON input'')"

definition row_ABCD :: row where
  "row_ABCD = \<lparr> cnpj = ''12.345.678/0001-90'', acronym = ''ABCD'', trading_code = ''ABCD11'' \<rparr>"

definition row_WXYZ :: row where
  "row_WXYZ = \<lparr> cnpj = ''12.345.678/0001-90'', acronym = ''WXYZ'', trading_code = ''WXYZ11'' \<rparr>"

text \<open>The database after \<open>payload_ABCD\<close>, and after \<open>payload_WXYZ\<close>, was stored into \<open>fresh\<close>.\<close>

definition after_ABCD :: database where
  "after_ABCD = \<lparr> tables = [''fii_details'' \<mapsto> [row_ABCD]], readonly = False,
     log = [CheckTable ''fii_details'', CreateTable ''fii_details'',
            InsertOrIgnore ''12.345.678/0001-90'' ''ABCD'' ''ABCD11''] \<rparr>"

definition after_WXYZ :: database where
  "after_WXYZ = \<lparr> tables = [''fii_details'' \<mapsto> [row_WXYZ]], readonly = False,
     log = [CheckTable ''fii_details'', CreateTable ''fii_details'',
            InsertOrIgnore ''12.345.678/0001-90'' ''WXYZ'' ''WXYZ11''] \<rparr>"

text \<open>
  The number of characters of a UTF-8 string: the bytes that are not continuation
  bytes (\<open>0x80\<close> to \<open>0xBF\<close>), each of which starts one code point. Go's \<^verbatim>\<open>len\<close>
  counts every byte instead.
\<close>

definition utf8_continuation :: "char \<Rightarrow> bool" where
  "utf8_continuation c = (0x80 \<le> (of_char c :: nat) \<and> (of_char c :: nat) < 0xC0)"

definition characters :: "string \<Rightarrow> nat" where
  "characters s = length (filter (\<lambda>c. \<not> utf8_continuation c) s)"

text \<open>
  Two codes that start with U+00C1 (A with acute, the bytes \<open>0xC3 0x81\<close>): four
  characters in five bytes, and six characters in seven bytes.
\<close>

definition code_4_characters :: string where
  "code_4_characters = [CHR 0xC3, CHR 0x81, CHR ''B'', CHR ''C'', CHR ''D'']"

definition code_6_characters :: string where
  "code_6_characters = [CHR 0xC3, CHR 0x81, CHR ''B'', CHR ''C'', CHR ''D'', CHR ''1'', CHR ''1'']"

section \<open>Auxiliary facts\<close>

lemma issue_simps [simp]:
  "tables (issue st h) = tables h"
  "readonly (issue st h) = readonly h"
  "log (issue st h) = log h @ [st]"
  by (simp_all add: issue_def)

lemma ensured_simps [simp]:
  "tables (ensured h) ''fii_details'' = Some (rows_or_empty h)"
  "readonly (ensured h) = readonly h"
  "log (ensured h) = log h @ (case tables h ''fii_details'' of
        Some rows \<Rightarrow> [CheckTable ''fii_details'']
      | None \<Rightarrow> [CheckTable ''fii_details'', CreateTable ''fii_details''])"
  by (simp_all add: ensured_def rows_or_empty_def split: option.splits)

lemma Store_readonly_no_table:
  "db fii = Some h \<Longrightarrow> tables h ''fii_details'' = None \<Longrightarrow> readonly h \<Longrightarrow>
   StoreFIIDetails um fii stream =
     (Some (DriverError ''attempt to write a readonly database''),
      fii\<lparr> db := Some (issue (CreateTable ''fii_details'') (issue (CheckTable ''fii_details'') h)) \<rparr>)"
  by (simp add: StoreFIIDetails_def hasTable_def createTable_def Let_def)

lemma Store_after_ensure:
  "db fii = Some h \<Longrightarrow> tables h ''fii_details'' \<noteq> None \<or> \<not> readonly h \<Longrightarrow>
   StoreFIIDetails um fii stream =
     (case um stream of
        Inl e \<Rightarrow> (Some (Wrap (JsonError e) ''json unmarshal''), fii\<lparr> db := Some (ensured h) \<rparr>)
      | Inr d \<Rightarrow>
          if TrimSpace (CNPJ (DetailFund d)) = [] then
            (Some (Errorf ''wrong CNPJ: ''), fii\<lparr> db := Some (ensured h) \<rparr>)
          else
            (fst (Exec_INSERT_OR_IGNORE (ensured h) (TrimSpace (CNPJ (DetailFund d)))
                    (TrimSpace (Acronym (DetailFund d))) (TrimSpace (TradingCode (DetailFund d)))),
             fii\<lparr> db := Some (snd (Exec_INSERT_OR_IGNORE (ensured h) (TrimSpace (CNPJ (DetailFund d)))
                    (TrimSpace (Acronym (DetailFund d))) (TrimSpace (TradingCode (DetailFund d))))) \<rparr>))"
  by (cases "tables h ''fii_details''")
     (simp_all add: StoreFIIDetails_def hasTable_def createTable_def ensured_def trimFIIDetails_def
        Let_def split_def split: sum.splits)

lemma Exec_ok:
  assumes "tables h ''fii_details'' = Some rows" and "\<not> readonly h"
  shows "fst (Exec_INSERT_OR_IGNORE h c a t) = None"
    and "tables (snd (Exec_INSERT_OR_IGNORE h c a t)) ''fii_details'' =
           Some (insert_or_ignore rows \<lparr> cnpj = c, acronym = a, trading_code = t \<rparr>)"
    and "readonly (snd (Exec_INSERT_OR_IGNORE h c a t)) = False"
    and "log (snd (Exec_INSERT_OR_IGNORE h c a t)) = log h @ [InsertOrIgnore c a t]"
  using assms by (simp_all add: Exec_INSERT_OR_IGNORE_def insert_or_ignore_def Let_def)

lemma Exec_readonly:
  "readonly h \<Longrightarrow> (fst (Exec_INSERT_OR_IGNORE h c a t) = None) = False"
  by (simp add: Exec_INSERT_OR_IGNORE_def Let_def split: option.splits)

lemma Store_success:
  assumes "StoreFIIDetails um fii stream = (None, fii')"
  shows "\<exists>h d. db fii = Some h \<and> \<not> readonly h \<and> um stream = Inr d
           \<and> TrimSpace (CNPJ (DetailFund d)) \<noteq> []
           \<and> fii' = fii\<lparr> db := Some (snd (Exec_INSERT_OR_IGNORE (ensured h)
                 (TrimSpace (CNPJ (DetailFund d))) (TrimSpace (Acronym (DetailFund d)))
                 (TrimSpace (TradingCode (DetailFund d))))) \<rparr>"
proof (cases "db fii")
  case None
  with assms show ?thesis by (simp add: StoreFIIDetails_def)
next
  case (Some h)
  show ?thesis
  proof (cases "readonly h")
    case True
    show ?thesis
    proof (cases "tables h ''fii_details''")
      case None
      with Some True assms show ?thesis
        by (simp add: Store_readonly_no_table)
    next
      case (Some rows)
      with \<open>db fii = Some h\<close> True assms show ?thesis
        by (auto simp add: Store_after_ensure Exec_readonly split: sum.splits if_splits)
    qed
  next
    case False
    with Some assms show ?thesis
      by (auto simp add: Store_after_ensure split: sum.splits if_splits)
  qed
qed

lemma Store_success_rows:
  assumes "StoreFIIDetails um fii stream = (None, fii')"
  shows "\<exists>h d. db fii = Some h \<and> um stream = Inr d \<and> TrimSpace (CNPJ (DetailFund d)) \<noteq> []
           \<and> (\<exists>h'. db fii' = Some h' \<and> \<not> readonly h')
           \<and> fii_rows fii' = Some (insert_or_ignore (rows_or_empty h)
                \<lparr> cnpj = TrimSpace (CNPJ (DetailFund d)),
                  acronym = TrimSpace (Acronym (DetailFund d)),
                  trading_code = TrimSpace (TradingCode (DetailFund d)) \<rparr>)"
proof -
  from Store_success [OF assms] obtain h d where
    h: "db fii = Some h" "\<not> readonly h" "um stream = Inr d" "TrimSpace (CNPJ (DetailFund d)) \<noteq> []"
    and fii': "fii' = fii\<lparr> db := Some (snd (Exec_INSERT_OR_IGNORE (ensured h)
                 (TrimSpace (CNPJ (DetailFund d))) (TrimSpace (Acronym (DetailFund d)))
                 (TrimSpace (TradingCode (DetailFund d))))) \<rparr>"
    by blast
  have t: "tables (ensured h) ''fii_details'' = Some (rows_or_empty h)" and r: "\<not> readonly (ensured h)"
    using h by simp_all
  show ?thesis
    using h fii' Exec_ok(2,3) [OF t r] by (simp add: fii_rows_def)
qed

lemma QueryRow_db_state [simp]:
  "snd (QueryRow_db h q arg) = issue (QueryRow q arg) h"
  by (cases q) (simp add: Let_def split: option.splits)

lemma QueryRow_db_result:
  "fst (QueryRow_db h (SELECT_FROM_fii_details_WHERE cols k) arg) =
     (case tables h ''fii_details'' of
        None \<Rightarrow> Inl (DriverError ''no such table: fii_details'')
      | Some rows \<Rightarrow>
          (case find (\<lambda>r. col k r = arg) rows of
             None \<Rightarrow> Inl ErrNoRows
           | Some r \<Rightarrow> Inr (map (\<lambda>c. col c r) cols)))"
  by (simp add: Let_def split: option.splits)

lemma CNPJ_of_code_fst:
  "db fii = Some h \<Longrightarrow> length code = 4 \<or> length code = 6 \<Longrightarrow>
   fst (CNPJ_of_code fii code) =
     (case Scan1 (fst (QueryRow_db h (SELECT_FROM_fii_details_WHERE [Col_cnpj] (key_column code)) code)) of
         Inl err \<Rightarrow> if err \<noteq> ErrNoRows then ([], Some err) else ([], None)
       | Inr c \<Rightarrow> (c, None))"
  by (auto simp add: CNPJ_of_code_def key_column_def split_def Let_def
      simp del: QueryRow_db.simps split: sum.splits)

lemma SelectFIIDetails_fst:
  "db fii = Some h \<Longrightarrow> length code = 4 \<or> length code = 6 \<Longrightarrow>
   fst (SelectFIIDetails fii code) =
     (case Scan3 (fst (QueryRow_db h
              (SELECT_FROM_fii_details_WHERE [Col_cnpj, Col_acronym, Col_trading_code] (key_column code)) code)) of
         Inl err \<Rightarrow> (None, Some err)
       | Inr (c, a, t) \<Rightarrow>
           (Some (zero_FIIDetails\<lparr> DetailFund := (DetailFund zero_FIIDetails)
                    \<lparr> CNPJ := c, Acronym := a, TradingCode := t \<rparr> \<rparr>), None))"
  by (auto simp add: SelectFIIDetails_def key_column_def split_def Let_def
      simp del: QueryRow_db.simps split: sum.splits)

lemma SelectFIIDetails_invalid:
  "length code \<noteq> 4 \<Longrightarrow> length code \<noteq> 6 \<Longrightarrow> snd (fst (SelectFIIDetails fii code)) \<noteq> None"
  by (simp add: SelectFIIDetails_def split: option.splits)

lemma distinct_filter_one:
  "distinct (map f xs) \<Longrightarrow> c \<in> f ` set xs \<Longrightarrow> length (filter (\<lambda>r. f r = c) xs) = 1"
proof (induction xs)
  case Nil
  then show ?case by simp
next
  case (Cons y ys)
  show ?case
  proof (cases "f y = c")
    case True
    with Cons.prems have "c \<notin> f ` set ys" by simp
    then have "filter (\<lambda>r. f r = c) ys = []"
      by (auto simp add: filter_empty_conv)
    with True show ?thesis by simp
  next
    case False
    with Cons.prems have "distinct (map f ys)" and "c \<in> f ` set ys" by auto
    then have "length (filter (\<lambda>r. f r = c) ys) = 1" by (rule Cons.IH)
    with False show ?thesis by simp
  qed
qed

lemma insert_or_ignore_distinct:
  "distinct (map cnpj rows) \<Longrightarrow> distinct (map cnpj (insert_or_ignore rows r))"
  by (auto simp add: insert_or_ignore_def list_ex_iff)

lemma insert_or_ignore_mem:
  "\<exists>r' \<in> set (insert_or_ignore rows r). cnpj r' = cnpj r"
  by (auto simp add: insert_or_ignore_def list_ex_iff)

lemma insert_or_ignore_idem:
  "cnpj r2 = cnpj r1 \<Longrightarrow> insert_or_ignore (insert_or_ignore rows r1) r2 = insert_or_ignore rows r1"
  by (auto simp add: insert_or_ignore_def list_ex_iff)

lemma find_unique:
  "x \<in> set xs \<Longrightarrow> P x \<Longrightarrow> (\<And>y. y \<in> set xs \<Longrightarrow> P y \<Longrightarrow> y = x) \<Longrightarrow> find P xs = Some x"
proof (induction xs)
  case Nil
  then show ?case by simp
next
  case (Cons z zs)
  show ?case
  proof (cases "P z")
    case True
    then have "z = x" using Cons.prems(3) by simp
    with True show ?thesis by simp
  next
    case False
    with Cons.prems(1,2) have "x \<in> set zs" by auto
    then have "find P zs = Some x"
      using Cons.prems(2,3) by (intro Cons.IH) simp_all
    with False show ?thesis by simp
  qed
qed

lemma no_conflictD:
  "no_conflict rows r0 \<Longrightarrow> r \<in> set rows \<Longrightarrow>
   cnpj r = cnpj r0 \<or> acronym r = acronym r0 \<or> trading_code r = trading_code r0 \<Longrightarrow> r = r0"
  unfolding no_conflict_def list_all_iff by blast

lemma insert_or_ignore_set:
  "set (insert_or_ignore rows r0) \<subseteq> insert r0 (set rows)"
  by (simp add: insert_or_ignore_def subset_insertI)

lemma insert_or_ignore_has:
  assumes "no_conflict rows r0"
  shows "r0 \<in> set (insert_or_ignore rows r0)"
proof (cases "list_ex (\<lambda>r'. cnpj r' = cnpj r0) rows")
  case True
  then obtain r where r: "r \<in> set rows" "cnpj r = cnpj r0"
    unfolding list_ex_iff by blast
  then have "r = r0"
    using no_conflictD [OF assms r(1)] by simp
  with r(1) True show ?thesis
    by (simp add: insert_or_ignore_def)
next
  case False
  then show ?thesis
    by (simp add: insert_or_ignore_def)
qed

lemma insert_or_ignore_find:
  assumes nc: "no_conflict rows r0" and "P r0"
    and key: "\<And>r. P r \<Longrightarrow> acronym r = acronym r0 \<or> trading_code r = trading_code r0"
  shows "find P (insert_or_ignore rows r0) = Some r0"
proof (rule find_unique)
  show "r0 \<in> set (insert_or_ignore rows r0)"
    using nc by (rule insert_or_ignore_has)
  show "P r0" by fact
next
  fix y
  assume y: "y \<in> set (insert_or_ignore rows r0)" and "P y"
  from y insert_or_ignore_set have "y = r0 \<or> y \<in> set rows" by blast
  then show "y = r0"
  proof
    assume "y = r0"
    then show ?thesis .
  next
    assume "y \<in> set rows"
    with nc show ?thesis
      using key [OF \<open>P y\<close>] by (blast intro: no_conflictD)
  qed
qed

lemma trimLeft_no_leading: "leading_space (trimLeft s) = None"
proof (induction s rule: trimLeft.induct)
  case (1 s)
  show ?case
  proof (cases "leading_space s")
    case None
    then show ?thesis by (simp add: trimLeft.simps [of s])
  next
    case (Some w)
    with 1 show ?thesis by (simp add: trimLeft.simps [of s])
  qed
qed

lemma trimRight_no_trailing: "trailing_space (trimRight s) = None"
proof (induction s rule: trimRight.induct)
  case (1 s)
  show ?case
  proof (cases "trailing_space s")
    case None
    then show ?thesis by (simp add: trimRight.simps [of s])
  next
    case (Some w)
    with 1 show ?thesis by (simp add: trimRight.simps [of s])
  qed
qed

lemma trimRight_prefix: "prefix (trimRight s) s"
proof (induction s rule: trimRight.induct)
  case (1 s)
  show ?case
  proof (cases "trailing_space s")
    case None
    then show ?thesis by (simp add: trimRight.simps [of s])
  next
    case (Some w)
    with 1 have "prefix (trimRight (take (length s - length w) s)) (take (length s - length w) s)"
      by simp
    moreover have "prefix (take (length s - length w) s) s"
      by (rule take_is_prefix)
    ultimately have "prefix (trimRight (take (length s - length w) s)) s"
      by (rule prefix_order.trans)
    with Some show ?thesis by (simp add: trimRight.simps [of s])
  qed
qed

lemma leading_space_prefix:
  assumes "leading_space b = None" and "prefix a b"
  shows "leading_space a = None"
proof -
  have "\<forall>w \<in> set unicode_spaces. \<not> prefix w b"
    using assms(1) by (simp add: leading_space_def find_None_iff)
  then have "\<forall>w \<in> set unicode_spaces. \<not> prefix w a"
    using assms(2) prefix_order.trans by blast
  then show ?thesis
    by (simp add: leading_space_def find_None_iff)
qed

lemma TrimSpace_trimmed:
  "leading_space (TrimSpace s) = None \<and> trailing_space (TrimSpace s) = None"
  unfolding TrimSpace_def
  using leading_space_prefix [OF trimLeft_no_leading trimRight_prefix] trimRight_no_trailing
  by simp

lemma TrimSpace_samples:
  "TrimSpace ''12.345.678/0001-90'' = ''12.345.678/0001-90''"
  "TrimSpace '' 12.345.678/0001-90 '' = ''12.345.678/0001-90''"
  "TrimSpace ''ABCD'' = ''ABCD''"
  "TrimSpace '' ABCD '' = ''ABCD''"
  "TrimSpace ''ABCD11'' = ''ABCD11''"
  "TrimSpace '' ABCD11 '' = ''ABCD11''"
  "TrimSpace ''WXYZ'' = ''WXYZ''"
  "TrimSpace ''WXYZ11'' = ''WXYZ11''"
  "TrimSpace ''   '' = []"
  by code_simp+

lemma sample_Unmarshal_simps:
  "sample_Unmarshal payload_ABCD = Inr (fund ''12.345.678/0001-90'' ''ABCD'' ''ABCD11'')"
  "sample_Unmarshal payload_padded = Inr (fund '' 12.345.678/0001-90 '' '' ABCD '' '' ABCD11 '')"
  "sample_Unmarshal payload_WXYZ = Inr (fund ''12.345.678/0001-90'' ''WXYZ'' ''WXYZ11'')"
  "sample_Unmarshal payload_blank = Inr (fund ''   '' ''ABCD'' ''ABCD11'')"
  "sample_Unmarshal payload_malformed = Inl ''unexpected end of JSON input''"
  by (simp_all add: sample_Unmarshal_def payload_ABCD_def payload_padded_def payload_WXYZ_def
      payload_blank_def payload_malformed_def)

lemma fund_simps [simp]:
  "CNPJ (DetailFund (fund c a t)) = c"
  "Acronym (DetailFund (fund c a t)) = a"
  "TradingCode (DetailFund (fund c a t)) = t"
  by (simp_all add: fund_def)

lemma store_ABCD_fresh:
  "StoreFIIDetails sample_Unmarshal (NewFIIStore (Some fresh)) payload_ABCD = (None, NewFIIStore (Some after_ABCD))"
  by (simp add: StoreFIIDetails_def sample_Unmarshal_simps TrimSpace_samples trimFIIDetails_def
      hasTable_def createTable_def Exec_INSERT_OR_IGNORE_def issue_def Let_def NewFIIStore_def
      fresh_def after_ABCD_def row_ABCD_def)

lemma db_NewFIIStore [simp]: "db (NewFIIStore d) = d"
  by (simp add: NewFIIStore_def)

lemma store_WXYZ_fresh:
  "StoreFIIDetails sample_Unmarshal (NewFIIStore (Some fresh)) payload_WXYZ = (None, NewFIIStore (Some after_WXYZ))"
  by (simp add: StoreFIIDetails_def sample_Unmarshal_simps TrimSpace_samples trimFIIDetails_def
      hasTable_def createTable_def Exec_INSERT_OR_IGNORE_def issue_def Let_def NewFIIStore_def
      fresh_def after_WXYZ_def row_WXYZ_def)

lemma cnpj_unique_fresh: "cnpj_unique (NewFIIStore (Some fresh))"
  by (simp add: cnpj_unique_def fii_rows_def fresh_def)

text \<open>
  The uniqueness of the CNPJ holds in a database without table and is kept by every
  call of \<^verbatim>\<open>StoreFIIDetails\<close>, whatever it returns.
\<close>

lemma Exec_rows:
  assumes "tables h ''fii_details'' = Some rows"
  shows "tables (snd (Exec_INSERT_OR_IGNORE h c a t)) ''fii_details'' =
           Some (if readonly h then rows
                 else insert_or_ignore rows \<lparr> cnpj = c, acronym = a, trading_code = t \<rparr>)"
  using assms by (simp add: Exec_INSERT_OR_IGNORE_def insert_or_ignore_def Let_def)

lemma Store_preserves_cnpj_unique:
  assumes "cnpj_unique fii"
  shows "cnpj_unique (snd (StoreFIIDetails um fii stream))"
proof (cases "db fii")
  case None
  with assms show ?thesis by (simp add: StoreFIIDetails_def)
next
  case (Some h)
  have d: "distinct (map cnpj (rows_or_empty h))"
    using assms Some by (simp add: cnpj_unique_def fii_rows_def rows_or_empty_def split: option.splits)
  show ?thesis
  proof (cases "tables h ''fii_details'' = None \<and> readonly h")
    case True
    then show ?thesis
      using Some by (simp add: Store_readonly_no_table cnpj_unique_def fii_rows_def)
  next
    case False
    then have e: "tables h ''fii_details'' \<noteq> None \<or> \<not> readonly h"
      by simp
    have t: "tables (ensured h) ''fii_details'' = Some (rows_or_empty h)"
      by simp
    show ?thesis
      using d insert_or_ignore_distinct [OF d]
      by (simp add: Store_after_ensure [OF Some e] cnpj_unique_def fii_rows_def Exec_rows [OF t]
          split: sum.splits)
  qed
qed

section \<open>The claims\<close>

subsection \<open>Storing\<close>

text \<open>
  C1. Storing twice with the same CNPJ: when a first \<^verbatim>\<open>StoreFIIDetails\<close> has succeeded
  for a payload, a second call for any payload with the same CNPJ (after trimming)
  succeeds too and leaves the rows of the table exactly as they were, so the row is
  neither updated nor duplicated; and the table then holds exactly one row with that
  CNPJ. The table's CNPJ values are unique before the calls, as its schema has it.
\<close>

theorem store_twice_same_cnpj_idempotent:
  assumes first: "StoreFIIDetails um fii stream1 = (None, fii1)"
    and "um stream1 = Inr d1" and "um stream2 = Inr d2"
    and same: "TrimSpace (CNPJ (DetailFund d2)) = TrimSpace (CNPJ (DetailFund d1))"
    and uniq: "cnpj_unique fii"
  shows "fst (StoreFIIDetails um fii1 stream2) = None
       \<and> fii_rows (snd (StoreFIIDetails um fii1 stream2)) = fii_rows fii1
       \<and> (\<exists>rows. fii_rows (snd (StoreFIIDetails um fii1 stream2)) = Some rows
            \<and> length (filter (\<lambda>r. cnpj r = TrimSpace (CNPJ (DetailFund d1))) rows) = 1)"
proof -
  let ?c = "TrimSpace (CNPJ (DetailFund d1))"
  let ?r1 = "\<lparr> cnpj = ?c, acronym = TrimSpace (Acronym (DetailFund d1)),
               trading_code = TrimSpace (TradingCode (DetailFund d1)) \<rparr>"
  let ?r2 = "\<lparr> cnpj = TrimSpace (CNPJ (DetailFund d2)), acronym = TrimSpace (Acronym (DetailFund d2)),
               trading_code = TrimSpace (TradingCode (DetailFund d2)) \<rparr>"
  from Store_success_rows [OF first] \<open>um stream1 = Inr d1\<close> obtain h h1 where
    h: "db fii = Some h" and ne: "?c \<noteq> []" and h1: "db fii1 = Some h1" "\<not> readonly h1"
    and rows1: "fii_rows fii1 = Some (insert_or_ignore (rows_or_empty h) ?r1)"
    by auto
  let ?rows1 = "insert_or_ignore (rows_or_empty h) ?r1"
  have t1: "tables h1 ''fii_details'' = Some ?rows1"
    using rows1 h1 by (simp add: fii_rows_def)
  then have roe: "rows_or_empty h1 = ?rows1"
    by (simp add: rows_or_empty_def)
  have t: "tables (ensured h1) ''fii_details'' = Some ?rows1" and r: "\<not> readonly (ensured h1)"
    using h1 roe by simp_all
  have second: "StoreFIIDetails um fii1 stream2 =
      (None, fii1\<lparr> db := Some (snd (Exec_INSERT_OR_IGNORE (ensured h1) (cnpj ?r2) (acronym ?r2) (trading_code ?r2))) \<rparr>)"
    using h1 t1 \<open>um stream2 = Inr d2\<close> same ne Exec_ok(1) [OF t r]
    by (simp add: Store_after_ensure)
  have rows2: "fii_rows (snd (StoreFIIDetails um fii1 stream2)) = Some (insert_or_ignore ?rows1 ?r2)"
    using second Exec_ok(2) [OF t r] by (simp add: fii_rows_def)
  have idem: "insert_or_ignore ?rows1 ?r2 = ?rows1"
    using same by (simp add: insert_or_ignore_idem)
  have "distinct (map cnpj (rows_or_empty h))"
    using uniq h by (simp add: cnpj_unique_def fii_rows_def rows_or_empty_def split: option.splits)
  then have d1: "distinct (map cnpj ?rows1)"
    by (rule insert_or_ignore_distinct)
  have "?c \<in> cnpj ` set ?rows1"
    using insert_or_ignore_mem [of "rows_or_empty h" ?r1] by force
  with d1 have one: "length (filter (\<lambda>r. cnpj r = ?c) ?rows1) = 1"
    by (rule distinct_filter_one)
  show ?thesis
    using second rows2 idem rows1 one by simp
qed

text \<open>
  The first payload is stored into a database without table; the second one has the
  same CNPJ and another acronym and trading code: the row of the first stays.
\<close>

theorem store_twice_same_cnpj_idempotent_witness:
  "StoreFIIDetails sample_Unmarshal (NewFIIStore (Some fresh)) payload_ABCD = (None, NewFIIStore (Some after_ABCD))
   \<and> fst (StoreFIIDetails sample_Unmarshal (NewFIIStore (Some after_ABCD)) payload_WXYZ) = None
   \<and> fii_rows (snd (StoreFIIDetails sample_Unmarshal (NewFIIStore (Some after_ABCD)) payload_WXYZ)) = Some [row_ABCD]"
proof -
  have same: "TrimSpace (CNPJ (DetailFund (fund ''12.345.678/0001-90'' ''WXYZ'' ''WXYZ11''))) =
              TrimSpace (CNPJ (DetailFund (fund ''12.345.678/0001-90'' ''ABCD'' ''ABCD11'')))"
    by simp
  note inst = store_twice_same_cnpj_idempotent
    [OF store_ABCD_fresh sample_Unmarshal_simps(1) sample_Unmarshal_simps(3) same cnpj_unique_fresh]
  have "fii_rows (NewFIIStore (Some after_ABCD)) = Some [row_ABCD]"
    by (simp add: fii_rows_def after_ABCD_def)
  with inst store_ABCD_fresh show ?thesis by simp
qed

text \<open>
  C2. A payload whose CNPJ is empty, or only white space, once trimmed: with a handle
  set and the table there or creatable, \<^verbatim>\<open>StoreFIIDetails\<close> returns the error
  "wrong CNPJ: " (the message followed by the empty CNPJ), the rows of the table are
  the ones it had (none when the table was just created), and the only statements
  issued are the table check and, when the table was missing, its creation: no insert.
\<close>

theorem blank_cnpj_rejected_without_insert:
  assumes "db fii = Some h" and "um stream = Inr d"
    and "TrimSpace (CNPJ (DetailFund d)) = []"
    and "tables h ''fii_details'' \<noteq> None \<or> \<not> readonly h"
  shows "fst (StoreFIIDetails um fii stream) = Some (Errorf ''wrong CNPJ: '')
       \<and> fii_rows (snd (StoreFIIDetails um fii stream)) = Some (rows_or_empty h)
       \<and> fii_log (snd (StoreFIIDetails um fii stream)) =
           log h @ (case tables h ''fii_details'' of
                      Some rows \<Rightarrow> [CheckTable ''fii_details'']
                    | None \<Rightarrow> [CheckTable ''fii_details'', CreateTable ''fii_details''])"
  using assms(2,3)
  by (simp add: Store_after_ensure [OF assms(1) assms(4)] fii_rows_def fii_log_def)

theorem blank_cnpj_rejected_without_insert_witness:
  "fst (StoreFIIDetails sample_Unmarshal (NewFIIStore (Some after_ABCD)) payload_blank) = Some (Errorf ''wrong CNPJ: '')
   \<and> fii_rows (snd (StoreFIIDetails sample_Unmarshal (NewFIIStore (Some after_ABCD)) payload_blank)) = Some [row_ABCD]
   \<and> fii_log (snd (StoreFIIDetails sample_Unmarshal (NewFIIStore (Some after_ABCD)) payload_blank)) =
       log after_ABCD @ [CheckTable ''fii_details'']"
proof -
  have h: "db (NewFIIStore (Some after_ABCD)) = Some after_ABCD"
    by simp
  have blank: "TrimSpace (CNPJ (DetailFund (fund ''   '' ''ABCD'' ''ABCD11''))) = []"
    by (simp add: TrimSpace_samples)
  have table: "tables after_ABCD ''fii_details'' \<noteq> None \<or> \<not> readonly after_ABCD"
    by (simp add: after_ABCD_def)
  note inst = blank_cnpj_rejected_without_insert
    [where um = sample_Unmarshal and stream = payload_blank, OF h sample_Unmarshal_simps(4) blank table]
  then show ?thesis
    by (simp add: rows_or_empty_def after_ABCD_def)
qed

text \<open>
  C8. Trimming comes before validation and before storage. For a decoded payload, with a
  handle set and the table there or creatable: a CNPJ that trimming empties is rejected
  (also when the raw CNPJ is not empty); otherwise, on a writable database, the call
  succeeds and the table is what insert-or-ignore makes of its rows and the triple of
  the trimmed CNPJ, acronym and trading code, so that a row with the trimmed CNPJ is
  there; and a trimmed string neither starts nor ends with white space.
\<close>

theorem store_trims_before_validation_and_storage:
  assumes "db fii = Some h" and "um stream = Inr d"
    and "tables h ''fii_details'' \<noteq> None \<or> \<not> readonly h"
  shows "(TrimSpace (CNPJ (DetailFund d)) = [] \<longrightarrow>
            fst (StoreFIIDetails um fii stream) = Some (Errorf ''wrong CNPJ: ''))
       \<and> (TrimSpace (CNPJ (DetailFund d)) \<noteq> [] \<and> \<not> readonly h \<longrightarrow>
            fst (StoreFIIDetails um fii stream) = None
          \<and> fii_rows (snd (StoreFIIDetails um fii stream)) =
              Some (insert_or_ignore (rows_or_empty h)
                \<lparr> cnpj = TrimSpace (CNPJ (DetailFund d)),
                  acronym = TrimSpace (Acronym (DetailFund d)),
                  trading_code = TrimSpace (TradingCode (DetailFund d)) \<rparr>)
          \<and> (\<exists>r \<in> set (insert_or_ignore (rows_or_empty h)
                \<lparr> cnpj = TrimSpace (CNPJ (DetailFund d)),
                  acronym = TrimSpace (Acronym (DetailFund d)),
                  trading_code = TrimSpace (TradingCode (DetailFund d)) \<rparr>).
                cnpj r = TrimSpace (CNPJ (DetailFund d))))
       \<and> (\<forall>s. leading_space (TrimSpace s) = None \<and> trailing_space (TrimSpace s) = None)"
proof -
  let ?r = "\<lparr> cnpj = TrimSpace (CNPJ (DetailFund d)),
              acronym = TrimSpace (Acronym (DetailFund d)),
              trading_code = TrimSpace (TradingCode (DetailFund d)) \<rparr>"
  have t: "tables (ensured h) ''fii_details'' = Some (rows_or_empty h)"
    by simp
  have w: "\<not> readonly h \<Longrightarrow> \<not> readonly (ensured h)"
    by simp
  have m: "\<exists>r \<in> set (insert_or_ignore (rows_or_empty h) ?r). cnpj r = TrimSpace (CNPJ (DetailFund d))"
    using insert_or_ignore_mem [of "rows_or_empty h" ?r] by simp
  show ?thesis
    using assms(2) Exec_ok(1,2) [OF t w] m
    by (simp add: Store_after_ensure [OF assms(1) assms(3)] fii_rows_def TrimSpace_trimmed)
qed

text \<open>
  The payload with CNPJ " 12.345.678/0001-90 ", acronym " ABCD " and trading code
  " ABCD11 ", stored into a database without table: the row has the three trimmed
  values, and both lookups return the trimmed CNPJ.
\<close>

theorem store_trims_before_validation_and_storage_witness:
  "fst (StoreFIIDetails sample_Unmarshal (NewFIIStore (Some fresh)) payload_padded) = None
   \<and> fii_rows (snd (StoreFIIDetails sample_Unmarshal (NewFIIStore (Some fresh)) payload_padded)) = Some [row_ABCD]
   \<and> fst (CNPJ_of_code (snd (StoreFIIDetails sample_Unmarshal (NewFIIStore (Some fresh)) payload_padded)) ''ABCD'')
       = (''12.345.678/0001-90'', None)
   \<and> fst (CNPJ_of_code (snd (StoreFIIDetails sample_Unmarshal (NewFIIStore (Some fresh)) payload_padded)) ''ABCD11'')
       = (''12.345.678/0001-90'', None)
   \<and> fst (StoreFIIDetails sample_Unmarshal (NewFIIStore (Some fresh)) payload_blank) = Some (Errorf ''wrong CNPJ: '')
   \<and> leading_space (TrimSpace '' 12.345.678/0001-90 '') = None"
proof -
  have h: "db (NewFIIStore (Some fresh)) = Some fresh"
    by simp
  have table: "tables fresh ''fii_details'' \<noteq> None \<or> \<not> readonly fresh"
    by (simp add: fresh_def)
  note padded = store_trims_before_validation_and_storage
    [where um = sample_Unmarshal and stream = payload_padded, OF h sample_Unmarshal_simps(2) table]
  note blank = store_trims_before_validation_and_storage
    [where um = sample_Unmarshal and stream = payload_blank, OF h sample_Unmarshal_simps(4) table]
  have ok: "fst (StoreFIIDetails sample_Unmarshal (NewFIIStore (Some fresh)) payload_padded) = None"
    and rows: "fii_rows (snd (StoreFIIDetails sample_Unmarshal (NewFIIStore (Some fresh)) payload_padded)) = Some [row_ABCD]"
    using padded
    by (simp_all add: TrimSpace_samples fresh_def rows_or_empty_def insert_or_ignore_def row_ABCD_def)
  obtain h' where h': "db (snd (StoreFIIDetails sample_Unmarshal (NewFIIStore (Some fresh)) payload_padded)) = Some h'"
    and t': "tables h' ''fii_details'' = Some [row_ABCD]"
    using rows by (auto simp add: fii_rows_def split: option.splits)
  have a: "fst (CNPJ_of_code (snd (StoreFIIDetails sample_Unmarshal (NewFIIStore (Some fresh)) payload_padded)) ''ABCD'')
       = (''12.345.678/0001-90'', None)"
    using t' by (simp add: CNPJ_of_code_fst [OF h'] QueryRow_db_result key_column_def row_ABCD_def
        del: QueryRow_db.simps)
  have b: "fst (CNPJ_of_code (snd (StoreFIIDetails sample_Unmarshal (NewFIIStore (Some fresh)) payload_padded)) ''ABCD11'')
       = (''12.345.678/0001-90'', None)"
    using t' by (simp add: CNPJ_of_code_fst [OF h'] QueryRow_db_result key_column_def row_ABCD_def
        del: QueryRow_db.simps)
  have c: "fst (StoreFIIDetails sample_Unmarshal (NewFIIStore (Some fresh)) payload_blank) = Some (Errorf ''wrong CNPJ: '')"
    using blank by (simp add: TrimSpace_samples)
  have d: "leading_space (TrimSpace '' 12.345.678/0001-90 '') = None"
    using padded by simp
  from ok rows a b c d show ?thesis by simp
qed

text \<open>
  C10. The table is ensured before the payload is decoded or validated: on a writable
  database without the table, a payload that does not decode, and one that decodes to
  a CNPJ that is empty once trimmed, both make \<^verbatim>\<open>StoreFIIDetails\<close> return an error,
  and leave a database in which the table has been checked for, created, and is empty,
  so the tables are not what they were before the call.
\<close>

theorem table_created_before_payload_errors:
  assumes "db fii = Some h" and "tables h ''fii_details'' = None" and "\<not> readonly h"
  shows "(um stream = Inl e \<longrightarrow>
            StoreFIIDetails um fii stream =
              (Some (Wrap (JsonError e) ''json unmarshal''), fii\<lparr> db := Some (ensured h) \<rparr>))
       \<and> (um stream = Inr d \<and> TrimSpace (CNPJ (DetailFund d)) = [] \<longrightarrow>
            StoreFIIDetails um fii stream =
              (Some (Errorf ''wrong CNPJ: ''), fii\<lparr> db := Some (ensured h) \<rparr>))
       \<and> tables (ensured h) ''fii_details'' = Some []
       \<and> tables (ensured h) \<noteq> tables h
       \<and> log (ensured h) = log h @ [CheckTable ''fii_details'', CreateTable ''fii_details'']"
proof -
  have e: "tables h ''fii_details'' \<noteq> None \<or> \<not> readonly h"
    using assms(3) by simp
  have "tables (ensured h) ''fii_details'' \<noteq> tables h ''fii_details''"
    using assms(2) by simp
  then have "tables (ensured h) \<noteq> tables h"
    by metis
  then show ?thesis
    using assms(2) by (simp add: Store_after_ensure [OF assms(1) e] rows_or_empty_def)
qed

theorem table_created_before_payload_errors_witness:
  "fii_rows (NewFIIStore (Some fresh)) = None
   \<and> fst (StoreFIIDetails sample_Unmarshal (NewFIIStore (Some fresh)) payload_malformed) =
       Some (Wrap (JsonError ''unexpected end of JSON input'') ''json unmarshal'')
   \<and> fii_rows (snd (StoreFIIDetails sample_Unmarshal (NewFIIStore (Some fresh)) payload_malformed)) = Some []
   \<and> fst (StoreFIIDetails sample_Unmarshal (NewFIIStore (Some fresh)) payload_blank) = Some (Errorf ''wrong CNPJ: '')
   \<and> fii_rows (snd (StoreFIIDetails sample_Unmarshal (NewFIIStore (Some fresh)) payload_blank)) = Some []
   \<and> fii_log (snd (StoreFIIDetails sample_Unmarshal (NewFIIStore (Some fresh)) payload_blank)) =
       [CheckTable ''fii_details'', CreateTable ''fii_details'']"
proof -
  have h: "db (NewFIIStore (Some fresh)) = Some fresh"
    by simp
  have none: "tables fresh ''fii_details'' = None" and rw: "\<not> readonly fresh" and l: "log fresh = []"
    by (simp_all add: fresh_def)
  note malformed = table_created_before_payload_errors
    [where um = sample_Unmarshal and stream = payload_malformed
       and e = "''unexpected end of JSON input''", OF h none rw]
  note blank = table_created_before_payload_errors
    [where um = sample_Unmarshal and stream = payload_blank
       and d = "fund ''   '' ''ABCD'' ''ABCD11''", OF h none rw]
  have "fii_rows (NewFIIStore (Some fresh)) = None"
    using none by (simp add: fii_rows_def)
  with malformed blank l show ?thesis
    by (simp add: sample_Unmarshal_simps TrimSpace_samples fii_rows_def fii_log_def)
qed

text \<open>
  C3. The round trip, as the code has it: when \<^verbatim>\<open>StoreFIIDetails\<close> succeeds for a record
  whose trimmed acronym has four bytes and whose trimmed trading code has six, on a store
  where no row already carries that CNPJ, that acronym or that trading code (unless it
  is the very same triple), then \<^verbatim>\<open>CNPJ\<close> returns the record's trimmed CNPJ, and no
  error, both for the acronym and for the trading code.
\<close>

theorem roundtrip_resolve_after_store:
  assumes ok: "StoreFIIDetails um fii stream = (None, fii')"
    and "um stream = Inr d"
    and "length (TrimSpace (Acronym (DetailFund d))) = 4"
    and "length (TrimSpace (TradingCode (DetailFund d))) = 6"
    and "no_conflict (case fii_rows fii of None \<Rightarrow> [] | Some rows \<Rightarrow> rows)
           \<lparr> cnpj = TrimSpace (CNPJ (DetailFund d)),
             acronym = TrimSpace (Acronym (DetailFund d)),
             trading_code = TrimSpace (TradingCode (DetailFund d)) \<rparr>"
  shows "fst (CNPJ_of_code fii' (TrimSpace (Acronym (DetailFund d)))) = (TrimSpace (CNPJ (DetailFund d)), None)
       \<and> fst (CNPJ_of_code fii' (TrimSpace (TradingCode (DetailFund d)))) = (TrimSpace (CNPJ (DetailFund d)), None)"
proof -
  let ?r0 = "\<lparr> cnpj = TrimSpace (CNPJ (DetailFund d)),
             acronym = TrimSpace (Acronym (DetailFund d)),
             trading_code = TrimSpace (TradingCode (DetailFund d)) \<rparr>"
  from Store_success_rows [OF ok] \<open>um stream = Inr d\<close> obtain h h' where
    h: "db fii = Some h" and h': "db fii' = Some h'"
    and rows': "fii_rows fii' = Some (insert_or_ignore (rows_or_empty h) ?r0)"
    by auto
  have "(case fii_rows fii of None \<Rightarrow> [] | Some rows \<Rightarrow> rows) = rows_or_empty h"
    using h by (simp add: fii_rows_def rows_or_empty_def)
  with assms(5) have nc: "no_conflict (rows_or_empty h) ?r0" by simp
  have t': "tables h' ''fii_details'' = Some (insert_or_ignore (rows_or_empty h) ?r0)"
    using rows' h' by (simp add: fii_rows_def)
  have fa: "find (\<lambda>r. acronym r = acronym ?r0) (insert_or_ignore (rows_or_empty h) ?r0) = Some ?r0"
    using nc by (rule insert_or_ignore_find) simp_all
  have ft: "find (\<lambda>r. trading_code r = trading_code ?r0) (insert_or_ignore (rows_or_empty h) ?r0) = Some ?r0"
    using nc by (rule insert_or_ignore_find) simp_all
  have a: "fst (CNPJ_of_code fii' (TrimSpace (Acronym (DetailFund d)))) = (TrimSpace (CNPJ (DetailFund d)), None)"
    using assms(3) fa t'
    by (simp add: CNPJ_of_code_fst [OF h'] QueryRow_db_result key_column_def del: QueryRow_db.simps)
  have t: "fst (CNPJ_of_code fii' (TrimSpace (TradingCode (DetailFund d)))) = (TrimSpace (CNPJ (DetailFund d)), None)"
    using assms(4) ft t'
    by (simp add: CNPJ_of_code_fst [OF h'] QueryRow_db_result key_column_def del: QueryRow_db.simps)
  from a t show ?thesis by simp
qed

text \<open>The record of the claim, stored into a database without table.\<close>

theorem roundtrip_resolve_after_store_witness:
  "StoreFIIDetails sample_Unmarshal (NewFIIStore (Some fresh)) payload_ABCD = (None, NewFIIStore (Some after_ABCD))
   \<and> fst (CNPJ_of_code (NewFIIStore (Some after_ABCD)) ''ABCD'') = (''12.345.678/0001-90'', None)
   \<and> fst (CNPJ_of_code (NewFIIStore (Some after_ABCD)) ''ABCD11'') = (''12.345.678/0001-90'', None)"
proof -
  have la: "length (TrimSpace (Acronym (DetailFund (fund ''12.345.678/0001-90'' ''ABCD'' ''ABCD11'')))) = 4"
    and lt: "length (TrimSpace (TradingCode (DetailFund (fund ''12.345.678/0001-90'' ''ABCD'' ''ABCD11'')))) = 6"
    by (simp_all add: TrimSpace_samples)
  have nc: "no_conflict (case fii_rows (NewFIIStore (Some fresh)) of None \<Rightarrow> [] | Some rows \<Rightarrow> rows)
           \<lparr> cnpj = TrimSpace (CNPJ (DetailFund (fund ''12.345.678/0001-90'' ''ABCD'' ''ABCD11''))),
             acronym = TrimSpace (Acronym (DetailFund (fund ''12.345.678/0001-90'' ''ABCD'' ''ABCD11''))),
             trading_code = TrimSpace (TradingCode (DetailFund (fund ''12.345.678/0001-90'' ''ABCD'' ''ABCD11''))) \<rparr>"
    by (simp add: fii_rows_def fresh_def no_conflict_def)
  note inst = roundtrip_resolve_after_store [OF store_ABCD_fresh sample_Unmarshal_simps(1) la lt nc]
  with store_ABCD_fresh show ?thesis
    by (simp add: TrimSpace_samples)
qed

text \<open>
  As the claim words it, for every successful store, it fails: after a fund with the
  same CNPJ and the acronym WXYZ was stored, storing the record of the claim succeeds
  (the insert is ignored), and both lookups return the empty string.
\<close>

theorem roundtrip_fails_when_cnpj_already_stored:
  "StoreFIIDetails sample_Unmarshal (NewFIIStore (Some fresh)) payload_WXYZ = (None, NewFIIStore (Some after_WXYZ))
   \<and> sample_Unmarshal payload_ABCD = Inr (fund ''12.345.678/0001-90'' ''ABCD'' ''ABCD11'')
   \<and> fst (StoreFIIDetails sample_Unmarshal (NewFIIStore (Some after_WXYZ)) payload_ABCD) = None
   \<and> fii_rows (snd (StoreFIIDetails sample_Unmarshal (NewFIIStore (Some after_WXYZ)) payload_ABCD)) = Some [row_WXYZ]
   \<and> fst (CNPJ_of_code (snd (StoreFIIDetails sample_Unmarshal (NewFIIStore (Some after_WXYZ)) payload_ABCD)) ''ABCD'')
       = ([], None)
   \<and> fst (CNPJ_of_code (snd (StoreFIIDetails sample_Unmarshal (NewFIIStore (Some after_WXYZ)) payload_ABCD)) ''ABCD11'')
       = ([], None)"
proof -
  have s: "StoreFIIDetails sample_Unmarshal (NewFIIStore (Some after_WXYZ)) payload_ABCD =
      (None, NewFIIStore (Some (after_WXYZ\<lparr> log := log after_WXYZ @
          [CheckTable ''fii_details'', InsertOrIgnore ''12.345.678/0001-90'' ''ABCD'' ''ABCD11''] \<rparr>)))"
    by (simp add: StoreFIIDetails_def sample_Unmarshal_simps TrimSpace_samples trimFIIDetails_def
        hasTable_def createTable_def Exec_INSERT_OR_IGNORE_def issue_def Let_def NewFIIStore_def
        after_WXYZ_def row_WXYZ_def)
  have a: "fst (CNPJ_of_code (NewFIIStore (Some (after_WXYZ\<lparr> log := log after_WXYZ @
          [CheckTable ''fii_details'', InsertOrIgnore ''12.345.678/0001-90'' ''ABCD'' ''ABCD11''] \<rparr>))) ''ABCD'') = ([], None)"
    by (simp add: CNPJ_of_code_def NewFIIStore_def after_WXYZ_def row_WXYZ_def Let_def)
  have b: "fst (CNPJ_of_code (NewFIIStore (Some (after_WXYZ\<lparr> log := log after_WXYZ @
          [CheckTable ''fii_details'', InsertOrIgnore ''12.345.678/0001-90'' ''ABCD'' ''ABCD11''] \<rparr>))) ''ABCD11'') = ([], None)"
    by (simp add: CNPJ_of_code_def NewFIIStore_def after_WXYZ_def row_WXYZ_def Let_def)
  have r: "fii_rows (NewFIIStore (Some (after_WXYZ\<lparr> log := log after_WXYZ @
          [CheckTable ''fii_details'', InsertOrIgnore ''12.345.678/0001-90'' ''ABCD'' ''ABCD11''] \<rparr>))) = Some [row_WXYZ]"
    by (simp add: fii_rows_def after_WXYZ_def)
  from s a b r store_WXYZ_fresh sample_Unmarshal_simps(1) show ?thesis
    by simp
qed

subsection \<open>Looking up\<close>

text \<open>
  C4. For a code of four or six bytes and a handle that is set: when the table is there
  and no row has the code in its key column, \<^verbatim>\<open>CNPJ\<close> returns the empty string and
  no error; and whenever the query fails with an error other than \<^verbatim>\<open>sql.ErrNoRows\<close>,
  \<^verbatim>\<open>CNPJ\<close> returns the empty string and that error.
\<close>

theorem resolve_not_found_is_empty_success:
  assumes "length code = 4 \<or> length code = 6"
  shows "(tables h ''fii_details'' = Some rows \<and> (\<forall>r \<in> set rows. col (key_column code) r \<noteq> code)
           \<longrightarrow> fst (CNPJ_of_code (NewFIIStore (Some h)) code) = ([], None))
       \<and> (\<forall>e. Scan1 (fst (QueryRow_db h (SELECT_FROM_fii_details_WHERE [Col_cnpj] (key_column code)) code)) = Inl e
               \<and> e \<noteq> ErrNoRows
           \<longrightarrow> fst (CNPJ_of_code (NewFIIStore (Some h)) code) = ([], Some e))"
proof -
  have h: "db (NewFIIStore (Some h)) = Some h"
    by simp
  have "find (\<lambda>r. col (key_column code) r = code) rows = None"
    if "\<forall>r \<in> set rows. col (key_column code) r \<noteq> code"
    using that by (simp add: find_None_iff)
  then show ?thesis
    by (auto simp add: CNPJ_of_code_fst [OF h assms] QueryRow_db_result simp del: QueryRow_db.simps)
qed

text \<open>
  An unknown acronym on a table with one row; and a lookup in a database that has no
  table, where the engine's error comes back.
\<close>

theorem resolve_not_found_is_empty_success_witness:
  "fst (CNPJ_of_code (NewFIIStore (Some after_ABCD)) ''WXYZ'') = ([], None)
   \<and> fst (CNPJ_of_code (NewFIIStore (Some fresh)) ''WXYZ11'') = ([], Some (DriverError ''no such table: fii_details''))"
proof -
  have len4: "length ''WXYZ'' = 4 \<or> length ''WXYZ'' = 6" and len6: "length ''WXYZ11'' = 4 \<or> length ''WXYZ11'' = 6"
    by simp_all
  have a: "fst (CNPJ_of_code (NewFIIStore (Some after_ABCD)) ''WXYZ'') = ([], None)"
    using resolve_not_found_is_empty_success [OF len4, of after_ABCD "[row_ABCD]"]
    by (simp add: after_ABCD_def row_ABCD_def key_column_def)
  have b: "fst (CNPJ_of_code (NewFIIStore (Some fresh)) ''WXYZ11'') = ([], Some (DriverError ''no such table: fii_details''))"
    using resolve_not_found_is_empty_success [OF len6, of fresh]
    by (simp add: fresh_def key_column_def Let_def)
  from a b show ?thesis by simp
qed

text \<open>
  With "character" read as a code point, the statement fails: a code of four characters
  in five bytes matches no row of the table, and \<^verbatim>\<open>CNPJ\<close> returns the invalid-code
  error for it, not the empty success.
\<close>

theorem resolve_four_characters_in_five_bytes_is_invalid:
  "characters code_4_characters = 4
   \<and> length code_4_characters = 5
   \<and> tables after_ABCD ''fii_details'' = Some [row_ABCD]
   \<and> acronym row_ABCD \<noteq> code_4_characters
   \<and> trading_code row_ABCD \<noteq> code_4_characters
   \<and> fst (CNPJ_of_code (NewFIIStore (Some after_ABCD)) code_4_characters) =
         ([], Some (invalid_code code_4_characters))
   \<and> fst (CNPJ_of_code (NewFIIStore (Some after_ABCD)) code_4_characters) \<noteq> ([], None)"
  by (simp add: characters_def utf8_continuation_def code_4_characters_def after_ABCD_def
      row_ABCD_def CNPJ_of_code_def NewFIIStore_def)

text \<open>
  C5. For a code of four or six bytes, a handle that is set and a table in which no
  row has the code in its key column, \<^verbatim>\<open>SelectFIIDetails\<close> returns no record and the
  error of the scan, \<^verbatim>\<open>sql.ErrNoRows\<close>: not finding is an error here.
\<close>

theorem select_not_found_is_error:
  assumes "length code = 4 \<or> length code = 6"
    and "tables h ''fii_details'' = Some rows"
    and "\<forall>r \<in> set rows. col (key_column code) r \<noteq> code"
  shows "fst (SelectFIIDetails (NewFIIStore (Some h)) code) = (None, Some ErrNoRows)"
proof -
  have h: "db (NewFIIStore (Some h)) = Some h"
    by simp
  have "find (\<lambda>r. col (key_column code) r = code) rows = None"
    using assms(3) by (simp add: find_None_iff)
  with assms(2) show ?thesis
    by (simp add: SelectFIIDetails_fst [OF h assms(1)] QueryRow_db_result del: QueryRow_db.simps)
qed

theorem select_not_found_is_error_witness:
  "fst (SelectFIIDetails (NewFIIStore (Some after_ABCD)) ''WXYZ11'') = (None, Some ErrNoRows)
   \<and> fst (SelectFIIDetails (NewFIIStore (Some after_ABCD)) ''WXYZ'') = (None, Some ErrNoRows)"
proof -
  have len4: "length ''WXYZ'' = 4 \<or> length ''WXYZ'' = 6" and len6: "length ''WXYZ11'' = 4 \<or> length ''WXYZ11'' = 6"
    by simp_all
  have t: "tables after_ABCD ''fii_details'' = Some [row_ABCD]"
    by (simp add: after_ABCD_def)
  have n4: "\<forall>r \<in> set [row_ABCD]. col (key_column ''WXYZ'') r \<noteq> ''WXYZ''"
    and n6: "\<forall>r \<in> set [row_ABCD]. col (key_column ''WXYZ11'') r \<noteq> ''WXYZ11''"
    by (simp_all add: key_column_def row_ABCD_def)
  from select_not_found_is_error [OF len6 t n6] select_not_found_is_error [OF len4 t n4]
  show ?thesis by simp
qed

text \<open>
  With "character" read as a code point, the statement fails: a code of six characters
  in seven bytes matches no row of the table, and \<^verbatim>\<open>SelectFIIDetails\<close> returns the
  invalid-code error for it, not \<^verbatim>\<open>sql.ErrNoRows\<close>.
\<close>

theorem select_six_characters_in_seven_bytes_is_invalid:
  "characters code_6_characters = 6
   \<and> length code_6_characters = 7
   \<and> tables after_ABCD ''fii_details'' = Some [row_ABCD]
   \<and> acronym row_ABCD \<noteq> code_6_characters
   \<and> trading_code row_ABCD \<noteq> code_6_characters
   \<and> fst (SelectFIIDetails (NewFIIStore (Some after_ABCD)) code_6_characters) =
         (None, Some (invalid_code code_6_characters))
   \<and> fst (SelectFIIDetails (NewFIIStore (Some after_ABCD)) code_6_characters) \<noteq> (None, Some ErrNoRows)"
  by (simp add: characters_def utf8_continuation_def code_6_characters_def after_ABCD_def
      row_ABCD_def SelectFIIDetails_def NewFIIStore_def invalid_code_def)

text \<open>
  C6. For a code whose length is neither four nor six bytes, and a handle that is set,
  \<^verbatim>\<open>CNPJ\<close> and \<^verbatim>\<open>SelectFIIDetails\<close> both return the error "invalid code '...'" with
  the code between the quotes, and both leave the store as it was: the log of
  statements gains nothing, so no query is issued.
\<close>

theorem invalid_code_length_rejected_without_query:
  assumes "length code \<noteq> 4" and "length code \<noteq> 6"
  shows "CNPJ_of_code (NewFIIStore (Some h)) code =
           (([], Some (Errorf (''invalid code '' @ [CHR 0x27] @ code @ [CHR 0x27]))), NewFIIStore (Some h))
       \<and> SelectFIIDetails (NewFIIStore (Some h)) code =
           ((None, Some (Errorf (''invalid code '' @ [CHR 0x27] @ code @ [CHR 0x27]))), NewFIIStore (Some h))
       \<and> fii_log (snd (CNPJ_of_code (NewFIIStore (Some h)) code)) = log h
       \<and> fii_log (snd (SelectFIIDetails (NewFIIStore (Some h)) code)) = log h"
  using assms
  by (simp add: CNPJ_of_code_def SelectFIIDetails_def NewFIIStore_def invalid_code_def fii_log_def)

theorem invalid_code_length_rejected_without_query_witness:
  "CNPJ_of_code (NewFIIStore (Some after_ABCD)) ''ABCDE'' =
       (([], Some (Errorf (''invalid code '' @ [CHR 0x27] @ ''ABCDE'' @ [CHR 0x27]))), NewFIIStore (Some after_ABCD))
   \<and> SelectFIIDetails (NewFIIStore (Some after_ABCD)) [] =
       ((None, Some (Errorf (''invalid code '' @ [CHR 0x27] @ [] @ [CHR 0x27]))), NewFIIStore (Some after_ABCD))"
proof -
  have a: "length ''ABCDE'' \<noteq> 4" "length ''ABCDE'' \<noteq> 6"
    and b: "length ([] :: string) \<noteq> 4" "length ([] :: string) \<noteq> 6"
    by simp_all
  from invalid_code_length_rejected_without_query [OF a, of after_ABCD]
    invalid_code_length_rejected_without_query [OF b, of after_ABCD]
  show ?thesis by simp
qed

text \<open>A lookup with a code of four or six bytes does issue its query, and nothing else.\<close>

lemma lookup_issues_one_query:
  assumes "db fii = Some h" and "length code = 4 \<or> length code = 6"
  shows "fii_log (snd (CNPJ_of_code fii code)) =
           log h @ [QueryRow (SELECT_FROM_fii_details_WHERE [Col_cnpj] (key_column code)) code]"
    and "fii_log (snd (SelectFIIDetails fii code)) =
           log h @ [QueryRow (SELECT_FROM_fii_details_WHERE [Col_cnpj, Col_acronym, Col_trading_code]
                      (key_column code)) code]"
  using assms
  by (auto simp add: CNPJ_of_code_def SelectFIIDetails_def fii_log_def key_column_def split_def Let_def
      simp del: QueryRow_db.simps split: sum.splits)

text \<open>
  C7. With a nil handle, \<^verbatim>\<open>StoreFIIDetails\<close>, \<^verbatim>\<open>CNPJ\<close> and \<^verbatim>\<open>SelectFIIDetails\<close> return
  \<^verbatim>\<open>ErrDBUnset\<close> for every input, with the empty string or no record beside it; each
  is a returned value (none faults), the store is returned as it was, and there is no
  database that a statement could have been issued against.
\<close>

theorem unset_handle_fails_fast:
  "StoreFIIDetails um (NewFIIStore None) stream = (Some ErrDBUnset, NewFIIStore None)
   \<and> CNPJ_of_code (NewFIIStore None) code = (([], Some ErrDBUnset), NewFIIStore None)
   \<and> SelectFIIDetails (NewFIIStore None) code = ((None, Some ErrDBUnset), NewFIIStore None)
   \<and> fii_log (snd (StoreFIIDetails um (NewFIIStore None) stream)) = []
   \<and> fii_log (snd (CNPJ_of_code (NewFIIStore None) code)) = []
   \<and> fii_log (snd (SelectFIIDetails (NewFIIStore None) code)) = []"
  by (simp add: StoreFIIDetails_def CNPJ_of_code_def SelectFIIDetails_def NewFIIStore_def fii_log_def)

text \<open>
  C9. Whenever \<^verbatim>\<open>SelectFIIDetails\<close> returns no error, it returns a record; the record's
  CNPJ, acronym and trading code are those of the first row of the table whose key
  column equals the code, and every other field is at its zero value: the whole
  shareholder group, and the fund group once the three fields are blanked.
\<close>

theorem select_returns_partial_projection:
  assumes "fst (SelectFIIDetails fii code) = (res, None)"
  shows "\<exists>d h rows r. res = Some d
           \<and> db fii = Some h \<and> tables h ''fii_details'' = Some rows
           \<and> find (\<lambda>r. col (key_column code) r = code) rows = Some r
           \<and> CNPJ (DetailFund d) = cnpj r
           \<and> Acronym (DetailFund d) = acronym r
           \<and> TradingCode (DetailFund d) = trading_code r
           \<and> (DetailFund d)\<lparr> CNPJ := [], Acronym := [], TradingCode := [] \<rparr> = zero_DetailFund
           \<and> ShareHolder d = zero_ShareHolder"
proof (cases "db fii")
  case None
  with assms show ?thesis by (simp add: SelectFIIDetails_def)
next
  case (Some h)
  have len: "length code = 4 \<or> length code = 6"
    using assms SelectFIIDetails_invalid [of code fii] by auto
  show ?thesis
    using assms Some
    by (auto simp add: SelectFIIDetails_fst [OF Some len] QueryRow_db_result zero_FIIDetails_def
        zero_DetailFund_def simp del: QueryRow_db.simps split: option.splits)
qed

theorem select_returns_partial_projection_witness:
  "fst (SelectFIIDetails (NewFIIStore (Some after_ABCD)) ''ABCD11'') =
     (Some (fund ''12.345.678/0001-90'' ''ABCD'' ''ABCD11''), None)
   \<and> ShareHolder (fund ''12.345.678/0001-90'' ''ABCD'' ''ABCD11'') = zero_ShareHolder
   \<and> (DetailFund (fund ''12.345.678/0001-90'' ''ABCD'' ''ABCD11''))
        \<lparr> CNPJ := [], Acronym := [], TradingCode := [] \<rparr> = zero_DetailFund"
proof -
  have e: "fst (SelectFIIDetails (NewFIIStore (Some after_ABCD)) ''ABCD11'') =
     (Some (fund ''12.345.678/0001-90'' ''ABCD'' ''ABCD11''), None)"
    by (simp add: SelectFIIDetails_def NewFIIStore_def after_ABCD_def row_ABCD_def fund_def
        zero_FIIDetails_def Let_def)
  from select_returns_partial_projection [OF e] e show ?thesis
    by auto
qed

end
